theory Spec2Isabelle
  imports Main "HOL-Library.AList"
begin

section \<open>Python values used by \<open>trollop/lib.py\<close>\<close>

text \<open>
  The module is Python 2.  Byte strings and unicode strings are both modelled as
  \<open>string\<close>.  A \<open>dict\<close> with string keys is an association list with distinct keys,
  \<open>d[k] = v\<close> is \<open>AList.update k v d\<close>.  Python 2 iterates a dict in hash order;
  the model iterates in insertion order, so the query parameters of a URL are written
  in that order.  The properties below are about which calls are made, to which path
  and with which parameters, not about the order of the parameters.
\<close>

datatype error =
    Exception string
  | ValueError string
  | KeyError
  | TypeError
  | OverflowError
  | AttributeError string
  | TransportError string

text \<open>
  What \<open>json.loads\<close> returns: \<open>None\<close>, \<open>True\<close>/\<open>False\<close>, an integer, a float, a string,
  a list or a dict.  A finite float is kept exactly as \<open>m * 2 ^ e\<close> (constructor
  \<open>JFloat m e\<close>).
\<close>

datatype json =
    JNull
  | JBool bool
  | JInt int
  | JFloat int int
  | JStr string
  | JArr "json list"
  | JObj "(string \<times> json) list"

text \<open>Truth value of a Python object, as tested by \<open>if data:\<close> and \<open>bool(raw)\<close>.\<close>

fun truthy :: "json \<Rightarrow> bool" where
  "truthy JNull = False"
| "truthy (JBool b) = b"
| "truthy (JInt n) = (n \<noteq> 0)"
| "truthy (JFloat m e) = (m \<noteq> 0)"
| "truthy (JStr s) = (s \<noteq> [])"
| "truthy (JArr xs) = (xs \<noteq> [])"
| "truthy (JObj kvs) = (kvs \<noteq> [])"

text \<open>
  Subscription \<open>obj[k]\<close> with a key that is a string or \<open>None\<close> (a \<open>Field\<close> whose key was
  never set).  Only a dict can be subscripted by such a key; a missing key raises
  \<open>KeyError\<close>, every other receiver raises \<open>TypeError\<close>.
\<close>

fun getitem :: "json \<Rightarrow> string option \<Rightarrow> error + json" where
  "getitem (JObj kvs) (Some k) = (case map_of kvs k of None \<Rightarrow> Inl KeyError | Some v \<Rightarrow> Inr v)"
| "getitem (JObj kvs) None = Inl KeyError"
| "getitem _ _ = Inl TypeError"

text \<open>Iteration \<open>for d in data\<close>: a list yields its elements, a dict its keys, a string
  its characters; anything else is not iterable.\<close>

fun py_iter :: "json \<Rightarrow> error + json list" where
  "py_iter (JArr xs) = Inr xs"
| "py_iter (JObj kvs) = Inr (map (\<lambda>kv. JStr (fst kv)) kvs)"
| "py_iter (JStr s) = Inr (map (\<lambda>c. JStr [c]) s)"
| "py_iter _ = Inl TypeError"

subsection \<open>Strings\<close>

definition startswith :: "string \<Rightarrow> string \<Rightarrow> bool" where
  "startswith s p = (take (length p) s = p)"

definition lower_char :: "char \<Rightarrow> char" where
  "lower_char c =
     (case map_of (zip ''ABCDEFGHIJKLMNOPQRSTUVWXYZ'' ''abcdefghijklmnopqrstuvwxyz'') c of
        None \<Rightarrow> c | Some l \<Rightarrow> l)"

text \<open>\<open>str.lower()\<close>: the 26 ASCII capitals are folded, every other byte is kept.\<close>

definition lower :: "string \<Rightarrow> string" where
  "lower s = map lower_char s"

definition digit_char :: "nat \<Rightarrow> char" where
  "digit_char d = ''0123456789ABCDEF'' ! d"

text \<open>Decimal text of a natural number, as \<open>"%s" % n\<close> prints it.\<close>

fun show_nat :: "nat \<Rightarrow> string" where
  "show_nat n = (if n < 10 then [digit_char n] else show_nat (n div 10) @ [digit_char (n mod 10)])"

declare show_nat.simps [simp del]

definition show_int :: "int \<Rightarrow> string" where
  "show_int i = (if i < 0 then CHR ''-'' # show_nat (nat (- i)) else show_nat (nat i))"

fun join :: "string \<Rightarrow> string list \<Rightarrow> string" where
  "join sep [] = []"
| "join sep [x] = x"
| "join sep (x # y # ys) = x @ sep @ join sep (y # ys)"

subsection \<open>\<open>urllib.urlencode\<close>\<close>

definition always_safe :: "string" where
  "always_safe = ''ABCDEFGHIJKLMNOPQRSTUVWXYZabcdefghijklmnopqrstuvwxyz0123456789_.-''"

text \<open>\<open>quote_plus\<close> keeps the always-safe characters, turns a space into \<open>+\<close> and writes
  every other byte as \<open>%XX\<close> with two capital hexadecimal digits.\<close>

definition quote_char :: "char \<Rightarrow> string" where
  "quote_char c =
     (if c \<in> set always_safe then [c]
      else if c = CHR '' '' then ''+''
      else [CHR ''%'', digit_char (of_char c div 16), digit_char (of_char c mod 16)])"

definition quote_plus :: "string \<Rightarrow> string" where
  "quote_plus s = concat (map quote_char s)"

definition urlencode_pair :: "string \<times> string \<Rightarrow> string" where
  "urlencode_pair kv = quote_plus (fst kv) @ ''='' @ quote_plus (snd kv)"

definition urlencode :: "(string \<times> string) list \<Rightarrow> string" where
  "urlencode query = join ''&'' (map urlencode_pair query)"

section \<open>The transport and the other external collaborators\<close>

record response =
  status_code :: int
  content :: string

text \<open>
  \<open>urlfetch.fetch(url, method)\<close> is the remote service: its answer may depend on every
  call made before (the first argument), and it may raise instead of answering.
  \<open>json.loads\<close> and \<open>isodate.parse_datetime\<close> are libraries outside the module, and
  \<open>builtin_int\<close> is Python's \<open>int(raw)\<close>.
\<close>

record datetime =
  dt_year :: int
  dt_month :: int
  dt_day :: int
  dt_hour :: int
  dt_minute :: int
  dt_second :: int

record env =
  urlfetch_fetch :: "(string \<times> string) list \<Rightarrow> string \<Rightarrow> string \<Rightarrow> error + response"
  json_loads :: "string \<Rightarrow> error + json"
  parse_datetime :: "json \<Rightarrow> error + datetime"
  builtin_int :: "json \<Rightarrow> error + int"

section \<open>\<open>TrelloConnection\<close>\<close>

record TrelloConnection =
  key :: string
  token :: string

datatype cls =
    Action | Board | Card | Checklist | CheckItem | List | Sticker | CustomSticker
  | WebHook | Attachment | Member | Token | Notification | Organization

record LazyTrello =
  e_cls :: cls
  e_id :: string
  e_conn :: TrelloConnection
  e_path :: string
  e_data :: "json option"

text \<open>
  The program state: the instances allocated so far (an instance's identity \<open>id(x)\<close> is
  its index, and no index is ever reused), the \<open>_lists\<close> dict of every \<open>SubList\<close>
  descriptor (a descriptor is named by the class that declares it and its attribute
  name), and the log of the calls made to \<open>urlfetch.fetch\<close>, oldest first.
\<close>

record state =
  heap :: "LazyTrello list"
  sub_lists :: "cls \<times> string \<Rightarrow> string \<Rightarrow> nat list option"
  calls :: "(string \<times> string) list"

type_synonym 'a result = "(error + 'a) \<times> state"

definition norm_path :: "string \<Rightarrow> string" where
  "norm_path path = (if \<not> startswith path ''/'' then ''/'' @ path else path)"

text \<open>\<open>params = params or {}; params.update({'key': self.key, 'token': self.token})\<close>\<close>

definition request_params ::
  "TrelloConnection \<Rightarrow> (string \<times> string) list option \<Rightarrow> (string \<times> string) list" where
  "request_params self params =
     AList.update ''token'' (token self)
       (AList.update ''key'' (key self)
          (case params of None \<Rightarrow> [] | Some p \<Rightarrow> if p = [] then [] else p))"

definition request_url ::
  "TrelloConnection \<Rightarrow> string \<Rightarrow> (string \<times> string) list option \<Rightarrow> string" where
  "request_url self path params =
     (''https://api.trello.com/1'' @ norm_path path) @ ''?'' @ urlencode (request_params self params)"

definition request ::
  "env \<Rightarrow> TrelloConnection \<Rightarrow> string \<Rightarrow> string \<Rightarrow> (string \<times> string) list option \<Rightarrow>
     string option \<Rightarrow> string option \<Rightarrow> state \<Rightarrow> string result" where
  "request ev self method path params body filename s =
     (let url = request_url self path params;
          s' = s\<lparr>calls := calls s @ [(url, method)]\<rparr>
      in case urlfetch_fetch ev (calls s) url method of
           Inl e \<Rightarrow> (Inl e, s')
         | Inr response \<Rightarrow>
             if status_code response \<noteq> 200
             then (Inl (Exception (''Error: ('' @ show_int (status_code response) @ '') ''
                          @ [CHR 0x22] @ content response @ [CHR 0x22])), s')
             else (Inr (content response), s'))"

definition get ::
  "env \<Rightarrow> TrelloConnection \<Rightarrow> string \<Rightarrow> (string \<times> string) list option \<Rightarrow> state \<Rightarrow> string result" where
  "get ev self path params s = request ev self ''GET'' path params None None s"

definition post ::
  "env \<Rightarrow> TrelloConnection \<Rightarrow> string \<Rightarrow> (string \<times> string) list option \<Rightarrow> string option \<Rightarrow>
     state \<Rightarrow> string result" where
  "post ev self path params body s = request ev self ''POST'' path params body None s"

definition put ::
  "env \<Rightarrow> TrelloConnection \<Rightarrow> string \<Rightarrow> (string \<times> string) list option \<Rightarrow> string option \<Rightarrow>
     state \<Rightarrow> string result" where
  "put ev self path params body s = request ev self ''PUT'' path params body None s"

definition delete ::
  "env \<Rightarrow> TrelloConnection \<Rightarrow> string \<Rightarrow> (string \<times> string) list option \<Rightarrow> string option \<Rightarrow>
     state \<Rightarrow> string result" where
  "delete ev self path params body s = request ev self ''DELETE'' path params body None s"

section \<open>\<open>LazyTrello\<close>\<close>

text \<open>The class attribute \<open>_prefix\<close> of every wrapper class.\<close>

fun prefix :: "cls \<Rightarrow> string" where
  "prefix Action = ''/actions/''"
| "prefix Board = ''/boards/''"
| "prefix Card = ''/cards/''"
| "prefix Checklist = ''/checklists/''"
| "prefix CheckItem = ''/checkItems/''"
| "prefix List = ''/lists/''"
| "prefix Sticker = ''/stickers/''"
| "prefix CustomSticker = ''/customStickers/''"
| "prefix WebHook = ''/webhooks/''"
| "prefix Attachment = ''/attachments/''"
| "prefix Member = ''/members/''"
| "prefix Token = ''/tokens/''"
| "prefix Notification = ''/notifications/''"
| "prefix Organization = ''/organizations/''"

text \<open>
  \<open>cls(conn, obj_id, data)\<close>.  \<open>self._prefix + obj_id\<close> raises \<open>TypeError\<close> unless \<open>obj_id\<close>
  is a string; the half-built object is then unreachable and is not recorded.  The
  default \<open>data=None\<close> is \<open>JNull\<close>.  \<open>_data\<close> is set only under \<open>if data:\<close>;
  \<open>e_data = None\<close> says that \<open>'_data'\<close> is not in the instance's \<open>__dict__\<close>.
\<close>

definition LazyTrello_init :: "cls \<Rightarrow> TrelloConnection \<Rightarrow> json \<Rightarrow> json \<Rightarrow> state \<Rightarrow> nat result" where
  "LazyTrello_init c conn obj_id data s =
     (case obj_id of
        JStr i \<Rightarrow>
          (let self = \<lparr>e_cls = c, e_id = i, e_conn = conn, e_path = prefix c @ i,
                       e_data = (if truthy data then Some data else None)\<rparr>
           in (Inr (length (heap s)), s\<lparr>heap := heap s @ [self]\<rparr>))
      | _ \<Rightarrow> (Inl TypeError, s))"

text \<open>
  Reading \<open>self._data\<close>.  When \<open>_data\<close> is in the instance's \<open>__dict__\<close> the ordinary
  lookup returns it; otherwise \<open>__getattr__('_data')\<close> runs, fetches \<open>self._path\<close>, parses
  the answer and stores it on the instance.
\<close>

definition LazyTrello_getattr_data :: "env \<Rightarrow> nat \<Rightarrow> state \<Rightarrow> json result" where
  "LazyTrello_getattr_data ev self s =
     (case e_data (heap s ! self) of
        Some d \<Rightarrow> (Inr d, s)
      | None \<Rightarrow>
          (case get ev (e_conn (heap s ! self)) (e_path (heap s ! self)) None s of
             (Inl e, s') \<Rightarrow> (Inl e, s')
           | (Inr body, s') \<Rightarrow>
               (case json_loads ev body of
                  Inl e \<Rightarrow> (Inl e, s')
                | Inr d \<Rightarrow>
                    (Inr d, s'\<lparr>heap := (heap s')[self := (heap s' ! self)\<lparr>e_data := Some d\<rparr>]\<rparr>))))"

section \<open>Field descriptors\<close>

definition Field_get :: "env \<Rightarrow> string option \<Rightarrow> nat \<Rightarrow> state \<Rightarrow> json result" where
  "Field_get ev k instance s =
     (case LazyTrello_getattr_data ev instance s of
        (Inl e, s') \<Rightarrow> (Inl e, s')
      | (Inr d, s') \<Rightarrow> (getitem d k, s'))"

definition DateField_get :: "env \<Rightarrow> string option \<Rightarrow> nat \<Rightarrow> state \<Rightarrow> datetime result" where
  "DateField_get ev k instance s =
     (case Field_get ev k instance s of
        (Inl e, s') \<Rightarrow> (Inl e, s')
      | (Inr raw, s') \<Rightarrow> (parse_datetime ev raw, s'))"

definition IntField_get :: "env \<Rightarrow> string option \<Rightarrow> nat \<Rightarrow> state \<Rightarrow> int result" where
  "IntField_get ev k instance s =
     (case Field_get ev k instance s of
        (Inl e, s') \<Rightarrow> (Inl e, s')
      | (Inr raw, s') \<Rightarrow> (builtin_int ev raw, s'))"

definition BoolField_get :: "env \<Rightarrow> string option \<Rightarrow> nat \<Rightarrow> state \<Rightarrow> bool result" where
  "BoolField_get ev k instance s =
     (case Field_get ev k instance s of
        (Inl e, s') \<Rightarrow> (Inl e, s')
      | (Inr raw, s') \<Rightarrow> (Inr (truthy raw), s'))"

text \<open>\<open>related_instance(conn, obj_id)\<close>: \<open>get_class(self.cls)(conn, obj_id)\<close>.  Every class
  name passed to a descriptor in the module names a class of the module, so the
  descriptor carries the class.\<close>

definition related_instance :: "cls \<Rightarrow> TrelloConnection \<Rightarrow> json \<Rightarrow> state \<Rightarrow> nat result" where
  "related_instance c conn obj_id s = LazyTrello_init c conn obj_id JNull s"

definition ObjectField_get :: "env \<Rightarrow> string option \<Rightarrow> cls \<Rightarrow> nat \<Rightarrow> state \<Rightarrow> nat result" where
  "ObjectField_get ev k c instance s =
     (let conn = e_conn (heap s ! instance)
      in case LazyTrello_getattr_data ev instance s of
           (Inl e, s') \<Rightarrow> (Inl e, s')
         | (Inr d, s') \<Rightarrow>
             (case getitem d k of
                Inl e \<Rightarrow> (Inl e, s')
              | Inr obj_id \<Rightarrow> related_instance c conn obj_id s'))"

text \<open>The list comprehension of \<open>ListField.__get__\<close>, left to right.\<close>

fun related_instances :: "cls \<Rightarrow> TrelloConnection \<Rightarrow> json list \<Rightarrow> state \<Rightarrow> nat list result" where
  "related_instances c conn [] s = (Inr [], s)"
| "related_instances c conn (i # ids) s =
     (case related_instance c conn i s of
        (Inl e, s') \<Rightarrow> (Inl e, s')
      | (Inr a, s') \<Rightarrow>
          (case related_instances c conn ids s' of
             (Inl e, s'') \<Rightarrow> (Inl e, s'')
           | (Inr as, s'') \<Rightarrow> (Inr (a # as), s'')))"

definition ListField_get :: "env \<Rightarrow> string option \<Rightarrow> cls \<Rightarrow> nat \<Rightarrow> state \<Rightarrow> nat list result" where
  "ListField_get ev k c instance s =
     (case LazyTrello_getattr_data ev instance s of
        (Inl e, s') \<Rightarrow> (Inl e, s')
      | (Inr d, s') \<Rightarrow>
          (case getitem d k of
             Inl e \<Rightarrow> (Inl e, s')
           | Inr ids \<Rightarrow>
               (let conn = e_conn (heap s' ! instance)
                in case py_iter ids of
                     Inl e \<Rightarrow> (Inl e, s')
                   | Inr is \<Rightarrow> related_instances c conn is s')))"

section \<open>\<open>SubList\<close>\<close>

text \<open>The list comprehension \<open>[cls(instance._conn, d['id'], d) for d in data]\<close>.\<close>

fun sublist_instances :: "cls \<Rightarrow> TrelloConnection \<Rightarrow> json list \<Rightarrow> state \<Rightarrow> nat list result" where
  "sublist_instances c conn [] s = (Inr [], s)"
| "sublist_instances c conn (d # ds) s =
     (case getitem d (Some ''id'') of
        Inl e \<Rightarrow> (Inl e, s)
      | Inr i \<Rightarrow>
          (case LazyTrello_init c conn i d s of
             (Inl e, s') \<Rightarrow> (Inl e, s')
           | (Inr a, s') \<Rightarrow>
               (case sublist_instances c conn ds s' of
                  (Inl e, s'') \<Rightarrow> (Inl e, s'')
                | (Inr as, s'') \<Rightarrow> (Inr (a # as), s''))))"

text \<open>The cache key \<open>"%s:%s" % (instance._id, id(instance))\<close>.\<close>

definition list_id :: "state \<Rightarrow> nat \<Rightarrow> string" where
  "list_id s instance = e_id (heap s ! instance) @ '':'' @ show_nat instance"

text \<open>
  \<open>SubList.__get__\<close> of the descriptor \<open>dsc\<close> (declaring class and attribute name) whose
  target class is \<open>c\<close>.
\<close>

definition SubList_get :: "env \<Rightarrow> cls \<times> string \<Rightarrow> cls \<Rightarrow> nat \<Rightarrow> state \<Rightarrow> nat list result" where
  "SubList_get ev dsc c instance s =
     (case sub_lists s dsc (list_id s instance) of
        Some l \<Rightarrow> (Inr l, s)
      | None \<Rightarrow>
          (let path = prefix (e_cls (heap s ! instance)) @ e_id (heap s ! instance) @ prefix c
           in case get ev (e_conn (heap s ! instance)) path None s of
                (Inl e, s') \<Rightarrow> (Inl e, s')
              | (Inr body, s') \<Rightarrow>
                  (case json_loads ev body of
                     Inl e \<Rightarrow> (Inl e, s')
                   | Inr data \<Rightarrow>
                       (case py_iter data of
                          Inl e \<Rightarrow> (Inl e, s')
                        | Inr ds \<Rightarrow>
                            (case sublist_instances c (e_conn (heap s' ! instance)) ds s' of
                               (Inl e, s'') \<Rightarrow> (Inl e, s'')
                             | (Inr l, s'') \<Rightarrow>
                                 (Inr l, s''\<lparr>sub_lists := (sub_lists s'')
                                    (dsc := (sub_lists s'' dsc)(list_id s'' instance \<mapsto> l))\<rparr>))))))"

section \<open>\<open>Labeled\<close>\<close>

definition valid_label_colors :: "string list" where
  "valid_label_colors = [''green'', ''yellow'', ''orange'', ''red'', ''purple'', ''blue'']"

text \<open>\<open>Labeled\<close> is mixed into \<open>Card\<close>; its methods use \<open>self._prefix\<close>, \<open>self._id\<close> and
  \<open>self._conn\<close> only.\<close>

definition set_label :: "env \<Rightarrow> nat \<Rightarrow> string \<Rightarrow> state \<Rightarrow> unit result" where
  "set_label ev self color s =
     (let color = lower color
      in if color \<notin> set valid_label_colors then (Inl (ValueError ''invalid color''), s)
         else
           (let path = prefix (e_cls (heap s ! self)) @ e_id (heap s ! self) @ ''/labels'';
                params = [(''value'', color)]
            in case post ev (e_conn (heap s ! self)) path (Some params) None s of
                 (Inl e, s') \<Rightarrow> (Inl e, s')
               | (Inr r, s') \<Rightarrow> (Inr (), s')))"

definition clear_label :: "env \<Rightarrow> nat \<Rightarrow> string \<Rightarrow> state \<Rightarrow> unit result" where
  "clear_label ev self color s =
     (let color = lower color
      in if color \<notin> set valid_label_colors then (Inl (ValueError ''invalid color''), s)
         else
           (let path = prefix (e_cls (heap s ! self)) @ e_id (heap s ! self) @ ''/labels/'' @ color
            in case delete ev (e_conn (heap s ! self)) path None None s of
                 (Inl e, s') \<Rightarrow> (Inl e, s')
               | (Inr r, s') \<Rightarrow> (Inr (), s')))"

section \<open>Class bodies\<close>

text \<open>
  The descriptors a class body can hold.  A \<open>Field\<close> is created with \<open>key=None\<close> unless a
  key is given; an \<open>ObjectField\<close> or \<open>ListField\<close> is always given its key and the target
  class; a \<open>SubList\<close> has the target class only.
\<close>

datatype descriptor =
    Field "string option"
  | DateField "string option"
  | IntField "string option"
  | BoolField "string option"
  | ObjectField "string option" cls
  | ListField "string option" cls
  | SubList cls

fun class_dict :: "cls \<Rightarrow> (string \<times> descriptor) list" where
  "class_dict Action =
     [(''data'', Field None), (''type'', Field None), (''date'', DateField None),
      (''creator'', ObjectField (Some ''idMemberCreator'') Member)]"
| "class_dict Board =
     [(''url'', Field None), (''name'', Field None), (''pinned'', Field None),
      (''prefs'', Field None), (''desc'', Field None), (''closed'', Field None),
      (''organization'', ObjectField (Some ''idOrganization'') Organization),
      (''actions'', SubList Action), (''cards'', SubList Card),
      (''checklists'', SubList Checklist), (''lists'', SubList List),
      (''members'', SubList Member)]"
| "class_dict Card =
     [(''url'', Field None), (''closed'', Field None), (''name'', Field None),
      (''badges'', Field None), (''checkItemStates'', Field None), (''desc'', Field None),
      (''labels'', Field None),
      (''board'', ObjectField (Some ''idBoard'') Board),
      (''list'', ObjectField (Some ''idList'') List),
      (''stickers'', SubList Sticker), (''attachments'', SubList Attachment),
      (''checklists'', ListField (Some ''idChecklists'') Checklist),
      (''members'', ListField (Some ''idMembers'') Member)]"
| "class_dict Checklist =
     [(''checkItems'', SubList CheckItem), (''name'', Field None),
      (''board'', ObjectField (Some ''idBoard'') Board), (''cards'', SubList Card)]"
| "class_dict CheckItem =
     [(''name'', Field None), (''pos'', Field None), (''type'', Field None)]"
| "class_dict List =
     [(''closed'', Field None), (''name'', Field None), (''url'', Field None),
      (''board'', ObjectField (Some ''idBoard'') Board), (''cards'', SubList Card)]"
| "class_dict Sticker = [(''image'', Field None), (''imageUrl'', Field None)]"
| "class_dict CustomSticker = [(''url'', Field None)]"
| "class_dict WebHook =
     [(''active'', BoolField None), (''callbackURL'', Field None),
      (''description'', Field None), (''idModel'', Field None)]"
| "class_dict Attachment =
     [(''bytes'', IntField None), (''date'', DateField None), (''mimeType'', Field None),
      (''name'', Field None), (''url'', Field None), (''isUpload'', BoolField None)]"
| "class_dict Member =
     [(''url'', Field None), (''fullname'', Field (Some ''fullName'')),
      (''username'', Field None),
      (''actions'', SubList Action), (''boards'', SubList Board), (''cards'', SubList Card),
      (''notifications'', SubList Notification), (''organizations'', SubList Organization),
      (''customStickers'', SubList CustomSticker)]"
| "class_dict Token = [(''webhooks'', SubList WebHook)]"
| "class_dict Notification =
     [(''data'', Field None), (''date'', DateField None), (''type'', Field None),
      (''unread'', Field None),
      (''creator'', ObjectField (Some ''idMemberCreator'') Member)]"
| "class_dict Organization =
     [(''url'', Field None), (''desc'', Field None),
      (''displayname'', Field (Some ''displayName'')), (''name'', Field None),
      (''actions'', SubList Action), (''boards'', SubList Board),
      (''members'', SubList Member)]"

text \<open>\<open>TrelloMeta.__new__\<close>: every \<open>Field\<close> instance (of any of the six field classes) whose
  key is \<open>None\<close> gets the attribute name as its key.\<close>

fun set_key :: "string \<Rightarrow> descriptor \<Rightarrow> descriptor" where
  "set_key k (Field None) = Field (Some k)"
| "set_key k (DateField None) = DateField (Some k)"
| "set_key k (IntField None) = IntField (Some k)"
| "set_key k (BoolField None) = BoolField (Some k)"
| "set_key k (ObjectField None c) = ObjectField (Some k) c"
| "set_key k (ListField None c) = ListField (Some k) c"
| "set_key k v = v"

definition TrelloMeta_new :: "(string \<times> descriptor) list \<Rightarrow> (string \<times> descriptor) list" where
  "TrelloMeta_new dct = map (\<lambda>kv. (fst kv, set_key (fst kv) (snd kv))) dct"

definition class_attr :: "cls \<Rightarrow> string \<Rightarrow> descriptor option" where
  "class_attr c name = map_of (TrelloMeta_new (class_dict c)) name"

text \<open>What reading an attribute through a descriptor gives back: an entity is returned
  by reference (its index in the heap).\<close>

datatype pyobj =
    PJson json
  | PDate datetime
  | PInt int
  | PBool bool
  | PRef nat
  | PRefs "nat list"

definition returning :: "('a \<Rightarrow> pyobj) \<Rightarrow> 'a result \<Rightarrow> pyobj result" where
  "returning f r = (case r of (Inl e, s) \<Rightarrow> (Inl e, s) | (Inr v, s) \<Rightarrow> (Inr (f v), s))"

text \<open>\<open>descriptor.__get__(instance, owner)\<close> for the descriptor stored under \<open>name\<close> in
  the body of the instance's class.\<close>

fun descr_get :: "env \<Rightarrow> string \<Rightarrow> descriptor \<Rightarrow> nat \<Rightarrow> state \<Rightarrow> pyobj result" where
  "descr_get ev name (Field k) instance s = returning PJson (Field_get ev k instance s)"
| "descr_get ev name (DateField k) instance s = returning PDate (DateField_get ev k instance s)"
| "descr_get ev name (IntField k) instance s = returning PInt (IntField_get ev k instance s)"
| "descr_get ev name (BoolField k) instance s = returning PBool (BoolField_get ev k instance s)"
| "descr_get ev name (ObjectField k c) instance s = returning PRef (ObjectField_get ev k c instance s)"
| "descr_get ev name (ListField k c) instance s = returning PRefs (ListField_get ev k c instance s)"
| "descr_get ev name (SubList c) instance s =
     returning PRefs (SubList_get ev (e_cls (heap s ! instance), name) c instance s)"

fun is_field :: "descriptor \<Rightarrow> bool" where
  "is_field (SubList c) = False"
| "is_field d = True"

section \<open>Sequences of operations\<close>

text \<open>The operations of the module that the model covers, for statements about every
  later behaviour of an instance.\<close>

datatype op =
    New cls TrelloConnection json json
  | Read nat string descriptor
  | Request TrelloConnection string string "(string \<times> string) list option" "string option" "string option"
  | SetLabel nat string
  | ClearLabel nat string

fun exec :: "env \<Rightarrow> op \<Rightarrow> state \<Rightarrow> state" where
  "exec ev (New c conn obj_id data) s = snd (LazyTrello_init c conn obj_id data s)"
| "exec ev (Read instance name d) s = snd (descr_get ev name d instance s)"
| "exec ev (Request conn method path params body filename) s =
     snd (request ev conn method path params body filename s)"
| "exec ev (SetLabel instance color) s = snd (set_label ev instance color s)"
| "exec ev (ClearLabel instance color) s = snd (clear_label ev instance color s)"

fun run :: "env \<Rightarrow> op list \<Rightarrow> state \<Rightarrow> state" where
  "run ev [] s = s"
| "run ev (x # xs) s = run ev xs (exec ev x s)"

section \<open>The specification's notions and concrete inputs\<close>

text \<open>The specification calls a response a success when its status is any 2xx code.\<close>

definition spec_success_2xx :: "int \<Rightarrow> bool" where
  "spec_success_2xx sc = (200 \<le> sc \<and> sc < 300)"

definition conn0 :: TrelloConnection where
  "conn0 = \<lparr>key = ''K'', token = ''T''\<rparr>"

definition s0 :: state where
  "s0 = \<lparr>heap = [], sub_lists = (\<lambda>d k. None), calls = []\<rparr>"

text \<open>A service that answers every call with the same status and body; \<open>json.loads\<close>
  decodes that body to \<open>j\<close>.\<close>

definition ev_always :: "int \<Rightarrow> string \<Rightarrow> json \<Rightarrow> env" where
  "ev_always sc body j =
     \<lparr>urlfetch_fetch = (\<lambda>h u m. Inr \<lparr>status_code = sc, content = body\<rparr>),
      json_loads = (\<lambda>b. if b = body then Inr j else Inl (ValueError ''No JSON object could be decoded'')),
      parse_datetime = (\<lambda>j. Inl (ValueError ''not a date'')),
      builtin_int = (\<lambda>j. case j of JInt n \<Rightarrow> Inr n | _ \<Rightarrow> Inl TypeError)\<rparr>"

text \<open>A state with one \<open>Card\<close> instance, \<open>abc123\<close>, built without data.\<close>

definition s_card :: state where
  "s_card = snd (LazyTrello_init Card conn0 (JStr ''abc123'') JNull s0)"

section \<open>Notions used in the proofs\<close>

text \<open>Two snapshots of one instance: nothing but \<open>_data\<close> differs, and \<open>_data\<close>, once
  present, is the same.\<close>

definition same_entity :: "LazyTrello \<Rightarrow> LazyTrello \<Rightarrow> bool" where
  "same_entity x y =
     (e_cls y = e_cls x \<and> e_id y = e_id x \<and> e_conn y = e_conn x \<and> e_path y = e_path x
      \<and> (e_data x \<noteq> None \<longrightarrow> e_data y = e_data x))"

definition evolves :: "state \<Rightarrow> state \<Rightarrow> bool" where
  "evolves s s' =
     (length (heap s) \<le> length (heap s')
      \<and> (\<forall>a < length (heap s). same_entity (heap s ! a) (heap s' ! a)))"

text \<open>The later state differs from the earlier one by new instances only.\<close>

definition allocs :: "state \<Rightarrow> state \<Rightarrow> bool" where
  "allocs s s' = (\<exists>xs. s' = s\<lparr>heap := heap s @ xs\<rparr>)"



text \<open>The instance \<open>cls(conn, i)\<close> as \<open>__init__\<close> leaves it when no data is passed.\<close>

definition fresh_entity :: "cls \<Rightarrow> TrelloConnection \<Rightarrow> string \<Rightarrow> LazyTrello" where
  "fresh_entity c conn i =
     \<lparr>e_cls = c, e_id = i, e_conn = conn, e_path = prefix c @ i, e_data = None\<rparr>"

definition card_json :: json where
  "card_json = JObj [(''id'', JStr ''abc123''), (''name'', JStr ''Demo''), (''idBoard'', JStr ''b1''),
                     (''idMembers'', JArr [JStr ''m1'', JStr ''m2''])]"

definition ev_card :: env where
  "ev_card = ev_always 200 ''{id: abc123, name: Demo, idBoard: b1, idMembers: [m1, m2]}'' card_json"

text \<open>A service whose first answer is 404 and whose later answers are 200.\<close>

definition ev_flaky :: env where
  "ev_flaky =
     \<lparr>urlfetch_fetch = (\<lambda>h u m. if h = [] then Inr \<lparr>status_code = 404, content = ''not found''\<rparr>
                                  else Inr \<lparr>status_code = 200, content = ''{name: Demo}''\<rparr>),
      json_loads = (\<lambda>b. if b = ''{name: Demo}'' then Inr (JObj [(''name'', JStr ''Demo'')])
                         else Inl (ValueError ''No JSON object could be decoded'')),
      parse_datetime = (\<lambda>j. Inl (ValueError ''not a date'')),
      builtin_int = (\<lambda>j. case j of JInt n \<Rightarrow> Inr n | _ \<Rightarrow> Inl TypeError)\<rparr>"

text \<open>The instance \<open>cls(conn, i, data)\<close> as \<open>__init__\<close> leaves it when it keeps \<open>data\<close>.\<close>

definition hydrated_entity :: "cls \<Rightarrow> TrelloConnection \<Rightarrow> string \<Rightarrow> json \<Rightarrow> LazyTrello" where
  "hydrated_entity c conn i data =
     \<lparr>e_cls = c, e_id = i, e_conn = conn, e_path = prefix c @ i, e_data = Some data\<rparr>"



text \<open>A state with one \<open>Card\<close> instance that was given its data.\<close>

definition s_hcard :: state where
  "s_hcard = snd (LazyTrello_init Card conn0 (JStr ''abc123'') card_json s0)"


section \<open>Properties of \<open>TrelloConnection.request\<close>\<close>

lemmas url_simps = request_url_def norm_path_def startswith_def request_params_def urlencode_def
  urlencode_pair_def quote_plus_def quote_char_def always_safe_def digit_char_def

lemma request_state:
  "snd (request ev self m p ps b f s) = s\<lparr>calls := calls s @ [(request_url self p ps, m)]\<rparr>"
  by (simp add: request_def Let_def split: sum.splits)

lemma request_result:
  "fst (request ev self m p ps b f s) =
     (case urlfetch_fetch ev (calls s) (request_url self p ps) m of
        Inl e \<Rightarrow> Inl e
      | Inr r \<Rightarrow> if status_code r = 200 then Inr (content r)
                 else Inl (Exception (''Error: ('' @ show_int (status_code r) @ '') ''
                          @ [CHR 0x22] @ content r @ [CHR 0x22])))"
  by (simp add: request_def Let_def split: sum.splits)

text \<open>
  C5, as the code has it.  \<open>request\<close> puts a \<open>/\<close> in front of a path that lacks one,
  calls the transport exactly once (one entry is added to the log, whatever the outcome),
  and returns the raw body exactly when the transport answers with status 200.  An
  exception of the transport is passed on; an answer with any other status, 2xx or not,
  raises an \<open>Exception\<close> whose message holds the status code and the body.
\<close>

theorem request_contract:
  "snd (request ev self m p ps b f s) =
     s\<lparr>calls := calls s @
        [(''https://api.trello.com/1'' @ (if startswith p ''/'' then p else ''/'' @ p) @ ''?''
            @ urlencode (request_params self ps), m)]\<rparr>
   \<and> request_url self p ps =
       ''https://api.trello.com/1'' @ (if startswith p ''/'' then p else ''/'' @ p) @ ''?''
         @ urlencode (request_params self ps)
   \<and> fst (request ev self m p ps b f s) =
     (case urlfetch_fetch ev (calls s) (request_url self p ps) m of
        Inl e \<Rightarrow> Inl e
      | Inr r \<Rightarrow> if status_code r = 200 then Inr (content r)
                 else Inl (Exception (''Error: ('' @ show_int (status_code r) @ '') ''
                          @ [CHR 0x22] @ content r @ [CHR 0x22])))
   \<and> ((\<exists>e. fst (request ev self m p ps b f s) = Inl e) \<longleftrightarrow>
        (\<forall>r. urlfetch_fetch ev (calls s) (request_url self p ps) m = Inr r \<longrightarrow> status_code r \<noteq> 200))"
  by (simp add: request_state request_result) (auto simp: request_url_def norm_path_def split: sum.splits)

theorem request_contract_witness:
  "fst (request (ev_always 200 ''[]'' (JArr [])) conn0 ''GET'' ''boards/b1/cards'' None None None s0) = Inr ''[]''
   \<and> fst (request (ev_always 404 ''not found'' JNull) conn0 ''GET'' ''boards/b1/cards'' None None None s0)
       = Inl (Exception (''Error: (404) '' @ [CHR 0x22] @ ''not found'' @ [CHR 0x22]))
   \<and> calls (snd (request (ev_always 200 ''[]'' (JArr [])) conn0 ''GET'' ''boards/b1/cards'' None None None s0))
       = [(''https://api.trello.com/1/boards/b1/cards?key=K&token=T'', ''GET'')]"
  using request_contract [of "ev_always 200 ''[]'' (JArr [])" conn0 "''GET''" "''boards/b1/cards''" None None None s0]
    request_contract [of "ev_always 404 ''not found'' JNull" conn0 "''GET''" "''boards/b1/cards''" None None None s0]
  by (simp add: ev_always_def conn0_def s0_def url_simps show_int_def show_nat.simps)

text \<open>
  C5 as stated fails: the service answers a \<open>POST\<close> with status 201, a 2xx status, and
  \<open>request\<close> raises instead of returning the body.
\<close>

theorem request_201_counterexample:
  "urlfetch_fetch (ev_always 201 ''ok'' JNull) (calls s0) (request_url conn0 ''/cards'' None) ''POST''
      = Inr \<lparr>status_code = 201, content = ''ok''\<rparr>
   \<and> spec_success_2xx 201
   \<and> fst (request (ev_always 201 ''ok'' JNull) conn0 ''POST'' ''/cards'' None None None s0)
       = Inl (Exception (''Error: (201) '' @ [CHR 0x22] @ ''ok'' @ [CHR 0x22]))"
  by (simp add: request_result ev_always_def spec_success_2xx_def show_int_def digit_char_def show_nat.simps)

section \<open>Credentials and ignored arguments\<close>

lemma request_params_key: "map_of (request_params self ps) ''key'' = Some (key self)"
  by (simp add: request_params_def update_conv')

lemma request_params_token: "map_of (request_params self ps) ''token'' = Some (token self)"
  by (simp add: request_params_def update_conv')

lemma request_params_distinct:
  "distinct (map fst (case ps of None \<Rightarrow> [] | Some q \<Rightarrow> q)) \<Longrightarrow> distinct (map fst (request_params self ps))"
  by (auto simp: request_params_def distinct_update split: option.splits)

text \<open>
  C9.  Whatever the method, the path and the caller's own parameters, the one call that
  \<open>request\<close> (and so \<open>get\<close>, \<open>post\<close>, \<open>put\<close> and \<open>delete\<close>) makes goes to a URL whose
  query string is the encoding of a dict in which \<open>key\<close> and \<open>token\<close> are the
  connection's: \<open>key=...\<close> and \<open>token=...\<close> are among the \<open>&\<close>-separated pairs, and a
  \<open>key\<close> or \<open>token\<close> supplied by the caller is overwritten.
\<close>

theorem request_carries_credentials:
  "calls (snd (request ev self m p ps b f s)) =
     calls s @ [((''https://api.trello.com/1'' @ norm_path p) @ ''?''
                   @ join ''&'' (map urlencode_pair (request_params self ps)), m)]
   \<and> calls (snd (get ev self p ps s)) = calls s @ [(request_url self p ps, ''GET'')]
   \<and> calls (snd (post ev self p ps b s)) = calls s @ [(request_url self p ps, ''POST'')]
   \<and> calls (snd (put ev self p ps b s)) = calls s @ [(request_url self p ps, ''PUT'')]
   \<and> calls (snd (delete ev self p ps b s)) = calls s @ [(request_url self p ps, ''DELETE'')]
   \<and> map_of (request_params self ps) ''key'' = Some (key self)
   \<and> map_of (request_params self ps) ''token'' = Some (token self)
   \<and> ''key='' @ quote_plus (key self) \<in> set (map urlencode_pair (request_params self ps))
   \<and> ''token='' @ quote_plus (token self) \<in> set (map urlencode_pair (request_params self ps))
   \<and> (distinct (map fst (case ps of None \<Rightarrow> [] | Some q \<Rightarrow> q)) \<longrightarrow>
        (\<forall>kv \<in> set (request_params self ps).
           (fst kv = ''key'' \<longrightarrow> snd kv = key self) \<and> (fst kv = ''token'' \<longrightarrow> snd kv = token self)))"
proof -
  have k: "(''key'', key self) \<in> set (request_params self ps)"
    using request_params_key [of self ps] by (rule map_of_SomeD)
  have t: "(''token'', token self) \<in> set (request_params self ps)"
    using request_params_token [of self ps] by (rule map_of_SomeD)
  have qk: "urlencode_pair (''key'', key self) = ''key='' @ quote_plus (key self)"
    by (simp add: urlencode_pair_def quote_plus_def quote_char_def always_safe_def)
  have qt: "urlencode_pair (''token'', token self) = ''token='' @ quote_plus (token self)"
    by (simp add: urlencode_pair_def quote_plus_def quote_char_def always_safe_def)
  have ek: "''key='' @ quote_plus (key self) \<in> set (map urlencode_pair (request_params self ps))"
    using k qk by (metis image_eqI set_map)
  have et: "''token='' @ quote_plus (token self) \<in> set (map urlencode_pair (request_params self ps))"
    using t qt by (metis image_eqI set_map)
  have over: "distinct (map fst (case ps of None \<Rightarrow> [] | Some q \<Rightarrow> q)) \<longrightarrow>
        (\<forall>kv \<in> set (request_params self ps).
           (fst kv = ''key'' \<longrightarrow> snd kv = key self) \<and> (fst kv = ''token'' \<longrightarrow> snd kv = token self))"
  proof (intro impI ballI)
    fix kv
    assume d: "distinct (map fst (case ps of None \<Rightarrow> [] | Some q \<Rightarrow> q))"
      and m: "kv \<in> set (request_params self ps)"
    have "distinct (map fst (request_params self ps))"
      using d by (rule request_params_distinct)
    then have "map_of (request_params self ps) (fst kv) = Some (snd kv)"
      using m by (cases kv) simp
    then show "(fst kv = ''key'' \<longrightarrow> snd kv = key self) \<and> (fst kv = ''token'' \<longrightarrow> snd kv = token self)"
      using request_params_key [of self ps] request_params_token [of self ps] by auto
  qed
  show ?thesis
    using ek et over
    by (simp add: request_state get_def post_def put_def delete_def request_params_key
        request_params_token request_url_def urlencode_def)
qed

theorem request_carries_credentials_witness:
  "calls (snd (request (ev_always 200 ''[]'' (JArr [])) conn0 ''PUT'' ''/cards/abc''
            (Some [(''desc'', ''a b''), (''key'', ''mine'')]) None None s0))
     = [(''https://api.trello.com/1/cards/abc?desc=a+b&key=K&token=T'', ''PUT'')]
   \<and> distinct (map fst [(''desc'', ''a b''), (''key'', ''mine'')])
   \<and> request_params conn0 (Some [(''desc'', ''a b''), (''key'', ''mine'')])
       = [(''desc'', ''a b''), (''key'', ''K''), (''token'', ''T'')]"
  using request_carries_credentials [of "ev_always 200 ''[]'' (JArr [])" conn0 "''PUT''" "''/cards/abc''"
      "Some [(''desc'', ''a b''), (''key'', ''mine'')]" None None s0]
  by (simp add: conn0_def s0_def url_simps)

text \<open>
  C10.  \<open>request\<close> never reads \<open>body\<close> or \<open>filename\<close>: two calls that differ only there
  make the same transport call and have the same outcome; the same holds for the
  \<open>body\<close> of \<open>post\<close>, \<open>put\<close> and \<open>delete\<close>.  A transport call is a URL and a method, so no
  body is ever sent.
\<close>

theorem request_ignores_body_and_filename:
  "request ev self m p ps b f s = request ev self m p ps b' f' s
   \<and> post ev self p ps b s = post ev self p ps b' s
   \<and> put ev self p ps b s = put ev self p ps b' s
   \<and> delete ev self p ps b s = delete ev self p ps b' s
   \<and> calls (snd (request ev self m p ps b f s)) = calls s @ [(request_url self p ps, m)]"
  by (simp add: request_def post_def put_def delete_def Let_def split: sum.splits)

theorem request_ignores_body_and_filename_witness:
  "request (ev_always 200 ''[]'' (JArr [])) conn0 ''POST'' ''/cards/abc/attachments'' None
      (Some ''file bytes'') (Some ''a.txt'') s0
   = request (ev_always 200 ''[]'' (JArr [])) conn0 ''POST'' ''/cards/abc/attachments'' None None None s0
   \<and> calls (snd (request (ev_always 200 ''[]'' (JArr [])) conn0 ''POST'' ''/cards/abc/attachments'' None
      (Some ''file bytes'') (Some ''a.txt'') s0))
     = [(''https://api.trello.com/1/cards/abc/attachments?key=K&token=T'', ''POST'')]"
  using request_ignores_body_and_filename [of "ev_always 200 ''[]'' (JArr [])" conn0 "''POST''"
      "''/cards/abc/attachments''" None "Some ''file bytes''" "Some ''a.txt''" s0 None None]
  by (simp add: request_state conn0_def s0_def url_simps)

section \<open>Properties of \<open>Labeled.set_label\<close>\<close>

lemma norm_path_prefix: "norm_path (prefix c @ rest) = prefix c @ rest"
  by (cases c) (simp_all add: norm_path_def startswith_def)

lemma quote_plus_valid_color: "v \<in> set valid_label_colors \<Longrightarrow> quote_plus v = v"
  by (auto simp: valid_label_colors_def quote_plus_def quote_char_def always_safe_def)

lemma lower_valid_color: "v \<in> set valid_label_colors \<Longrightarrow> lower v = v"
  by (auto simp: valid_label_colors_def lower_def lower_char_def)

lemma label_url:
  assumes "v \<in> set valid_label_colors"
  shows "request_url conn (prefix c @ i @ ''/labels'') (Some [(''value'', v)]) =
           ''https://api.trello.com/1'' @ prefix c @ i @ ''/labels?value='' @ v
             @ ''&key='' @ quote_plus (key conn) @ ''&token='' @ quote_plus (token conn)"
proof -
  have "urlencode (request_params conn (Some [(''value'', v)])) =
          ''value='' @ v @ ''&key='' @ quote_plus (key conn) @ ''&token='' @ quote_plus (token conn)"
    using quote_plus_valid_color [OF assms]
    by (simp add: request_params_def urlencode_def urlencode_pair_def)
       (simp add: quote_plus_def quote_char_def always_safe_def)
  then show ?thesis
    using norm_path_prefix [of c "i @ ''/labels''"] by (simp add: request_url_def)
qed

text \<open>
  C7.  The colour is lower-cased first.  If the result is one of green, yellow, orange,
  red, purple, blue (that is, if the colour is one of them up to the case of its
  letters), \<open>set_label\<close> makes exactly one call, a \<open>POST\<close> to
  \<open><prefix><id>/labels\<close> with \<open>value=<lower-cased colour>\<close> (and the credentials) in the
  query string, and nothing else in the state changes.  For every other colour it raises
  \<open>ValueError\<close> and leaves the state, and so the log of calls, as it was.
\<close>

theorem set_label_contract:
  "set valid_label_colors = {''green'', ''yellow'', ''orange'', ''red'', ''purple'', ''blue''}
   \<and> (lower color \<in> set valid_label_colors \<longleftrightarrow> (\<exists>v \<in> set valid_label_colors. lower v = lower color))
   \<and> (lower color \<in> set valid_label_colors \<longrightarrow>
        snd (set_label ev self color s) =
          s\<lparr>calls := calls s @
             [(''https://api.trello.com/1'' @ prefix (e_cls (heap s ! self)) @ e_id (heap s ! self)
                 @ ''/labels?value='' @ lower color
                 @ ''&key='' @ quote_plus (key (e_conn (heap s ! self)))
                 @ ''&token='' @ quote_plus (token (e_conn (heap s ! self))), ''POST'')]\<rparr>)
   \<and> (lower color \<notin> set valid_label_colors \<longrightarrow>
        set_label ev self color s = (Inl (ValueError ''invalid color''), s))"
proof -
  have a: "set valid_label_colors = {''green'', ''yellow'', ''orange'', ''red'', ''purple'', ''blue''}"
    by (simp add: valid_label_colors_def)
  have b: "lower color \<in> set valid_label_colors \<longleftrightarrow> (\<exists>v \<in> set valid_label_colors. lower v = lower color)"
    using lower_valid_color by metis
  have c: "snd (set_label ev self color s) =
          s\<lparr>calls := calls s @
             [(''https://api.trello.com/1'' @ prefix (e_cls (heap s ! self)) @ e_id (heap s ! self)
                 @ ''/labels?value='' @ lower color
                 @ ''&key='' @ quote_plus (key (e_conn (heap s ! self)))
                 @ ''&token='' @ quote_plus (token (e_conn (heap s ! self))), ''POST'')]\<rparr>"
    if v: "lower color \<in> set valid_label_colors"
  proof -
    have "snd (set_label ev self color s) =
            snd (request ev (e_conn (heap s ! self)) ''POST''
                   (prefix (e_cls (heap s ! self)) @ e_id (heap s ! self) @ ''/labels'')
                   (Some [(''value'', lower color)]) None None s)"
      using v by (simp add: set_label_def post_def Let_def split: prod.splits sum.splits)
    then show ?thesis
      by (simp add: request_state label_url [OF v])
  qed
  have d: "set_label ev self color s = (Inl (ValueError ''invalid color''), s)"
    if "lower color \<notin> set valid_label_colors"
    using that by (simp add: set_label_def Let_def)
  show ?thesis
    using a b c d by blast
qed

lemma s_card_eq:
  "s_card = \<lparr>heap = [\<lparr>e_cls = Card, e_id = ''abc123'', e_conn = conn0, e_path = ''/cards/abc123'',
                        e_data = None\<rparr>],
             sub_lists = (\<lambda>d k. None), calls = []\<rparr>"
  by (simp add: s_card_def LazyTrello_init_def s0_def)

theorem set_label_contract_witness:
  "lower ''PURPLE'' \<in> set valid_label_colors
   \<and> calls (snd (set_label (ev_always 200 ''[]'' (JArr [])) 0 ''PURPLE'' s_card))
       = [(''https://api.trello.com/1/cards/abc123/labels?value=purple&key=K&token=T'', ''POST'')]
   \<and> lower ''teal'' \<notin> set valid_label_colors
   \<and> set_label (ev_always 200 ''[]'' (JArr [])) 0 ''teal'' s_card = (Inl (ValueError ''invalid color''), s_card)"
  using set_label_contract [of "''PURPLE''" "ev_always 200 ''[]'' (JArr [])" 0 s_card]
    set_label_contract [of "''teal''" "ev_always 200 ''[]'' (JArr [])" 0 s_card]
  by (simp add: s_card_eq conn0_def lower_def lower_char_def valid_label_colors_def
      quote_plus_def quote_char_def always_safe_def)

section \<open>Instances, hydration and the descriptors\<close>





subsection \<open>Frames\<close>

lemma allocs_refl: "allocs s s"
  by (auto simp: allocs_def intro: exI [of _ "[]"])

lemma allocs_trans: "allocs s s' \<Longrightarrow> allocs s' s'' \<Longrightarrow> allocs s s''"
  by (auto simp: allocs_def)

lemma allocs_calls: "allocs s s' \<Longrightarrow> calls s' = calls s"
  by (auto simp: allocs_def)

lemma allocs_sub_lists: "allocs s s' \<Longrightarrow> sub_lists s' = sub_lists s"
  by (auto simp: allocs_def)


lemma allocs_length: "allocs s s' \<Longrightarrow> length (heap s) \<le> length (heap s')"
  by (auto simp: allocs_def)

lemma same_entity_refl: "same_entity x x"
  by (simp add: same_entity_def)

lemma same_entity_trans: "same_entity x y \<Longrightarrow> same_entity y z \<Longrightarrow> same_entity x z"
  by (auto simp: same_entity_def)

lemma evolves_refl: "evolves s s"
  by (simp add: evolves_def same_entity_refl)

lemma evolves_trans: "evolves s s' \<Longrightarrow> evolves s' s'' \<Longrightarrow> evolves s s''"
  unfolding evolves_def
  by (meson le_trans less_le_trans same_entity_trans)

lemma allocs_evolves: "allocs s s' \<Longrightarrow> evolves s s'"
  by (auto simp: evolves_def allocs_def nth_append same_entity_refl)

lemma evolves_calls_update: "evolves s (s\<lparr>calls := cs\<rparr>)"
  by (simp add: evolves_def same_entity_refl)

lemma evolves_hydrated:
  "evolves s s' \<Longrightarrow> a < length (heap s) \<Longrightarrow> e_data (heap s ! a) = Some d \<Longrightarrow>
     a < length (heap s') \<and> e_data (heap s' ! a) = Some d"
  by (auto simp: evolves_def same_entity_def)

subsection \<open>The constructor\<close>

lemma init_str:
  "LazyTrello_init c conn (JStr i) data s =
     (Inr (length (heap s)),
      s\<lparr>heap := heap s @ [\<lparr>e_cls = c, e_id = i, e_conn = conn, e_path = prefix c @ i,
                           e_data = (if truthy data then Some data else None)\<rparr>]\<rparr>)"
  by (simp add: LazyTrello_init_def)

lemma init_allocs: "allocs s (snd (LazyTrello_init c conn obj_id data s))"
  by (cases obj_id) (auto simp: LazyTrello_init_def allocs_def intro: exI [of _ "[]"])

lemma related_instance_str:
  "related_instance c conn (JStr i) s = (Inr (length (heap s)), s\<lparr>heap := heap s @ [fresh_entity c conn i]\<rparr>)"
  by (simp add: related_instance_def init_str fresh_entity_def)

lemma related_instances_allocs: "allocs s (snd (related_instances c conn ids s))"
proof (induction ids arbitrary: s)
  case Nil
  show ?case by (simp add: allocs_refl)
next
  case (Cons i ids)
  obtain r s' where r: "related_instance c conn i s = (r, s')"
    by (cases "related_instance c conn i s")
  then have a: "allocs s s'"
    using init_allocs [of s c conn i JNull] by (simp add: related_instance_def)
  show ?case
  proof (cases r)
    case (Inl e)
    then show ?thesis using r a by simp
  next
    case (Inr x)
    have "allocs s' (snd (related_instances c conn ids s'))"
      by (rule Cons.IH)
    then have "allocs s (snd (related_instances c conn ids s'))"
      using a allocs_trans by blast
    moreover have "snd (related_instances c conn (i # ids) s) = snd (related_instances c conn ids s')"
      using r Inr by (cases "related_instances c conn ids s'") (simp split: sum.splits)
    ultimately show ?thesis by simp
  qed
qed

lemma sublist_instances_allocs: "allocs s (snd (sublist_instances c conn ds s))"
proof (induction ds arbitrary: s)
  case Nil
  show ?case by (simp add: allocs_refl)
next
  case (Cons d ds)
  show ?case
  proof (cases "getitem d (Some ''id'')")
    case (Inl e)
    then show ?thesis by (simp add: allocs_refl)
  next
    case (Inr i)
    obtain r s' where r: "LazyTrello_init c conn i d s = (r, s')"
      by (cases "LazyTrello_init c conn i d s")
    then have a: "allocs s s'"
      using init_allocs [of s c conn i d] by simp
    show ?thesis
    proof (cases r)
      case (Inl e)
      then show ?thesis using r a Inr by simp
    next
      case (Inr x)
      have "allocs s' (snd (sublist_instances c conn ds s'))"
        by (rule Cons.IH)
      then have "allocs s (snd (sublist_instances c conn ds s'))"
        using a allocs_trans by blast
      moreover have "snd (sublist_instances c conn (d # ds) s) = snd (sublist_instances c conn ds s')"
        using r Inr \<open>getitem d (Some ''id'') = Inr i\<close>
        by (cases "sublist_instances c conn ds s'") (simp split: sum.splits)
      ultimately show ?thesis by simp
    qed
  qed
qed

subsection \<open>Hydration\<close>

lemma get_state:
  "snd (get ev conn p ps s) = s\<lparr>calls := calls s @ [(request_url conn p ps, ''GET'')]\<rparr>"
  by (simp add: get_def request_state)

lemma getattr_hydrated:
  "e_data (heap s ! a) = Some d \<Longrightarrow> LazyTrello_getattr_data ev a s = (Inr d, s)"
  by (simp add: LazyTrello_getattr_data_def)

lemma getattr_unhydrated:
  assumes "e_data (heap s ! a) = None"
  shows "LazyTrello_getattr_data ev a s =
     (case fst (get ev (e_conn (heap s ! a)) (e_path (heap s ! a)) None s) of
        Inl e \<Rightarrow> (Inl e, s\<lparr>calls := calls s @ [(request_url (e_conn (heap s ! a)) (e_path (heap s ! a)) None, ''GET'')]\<rparr>)
      | Inr body \<Rightarrow>
          (case json_loads ev body of
             Inl e \<Rightarrow> (Inl e, s\<lparr>calls := calls s @ [(request_url (e_conn (heap s ! a)) (e_path (heap s ! a)) None, ''GET'')]\<rparr>)
           | Inr d \<Rightarrow> (Inr d, s\<lparr>calls := calls s @ [(request_url (e_conn (heap s ! a)) (e_path (heap s ! a)) None, ''GET'')],
                                heap := (heap s)[a := (heap s ! a)\<lparr>e_data := Some d\<rparr>]\<rparr>)))"
proof -
  obtain r s' where g: "get ev (e_conn (heap s ! a)) (e_path (heap s ! a)) None s = (r, s')"
    by (cases "get ev (e_conn (heap s ! a)) (e_path (heap s ! a)) None s")
  then have s': "s' = s\<lparr>calls := calls s @ [(request_url (e_conn (heap s ! a)) (e_path (heap s ! a)) None, ''GET'')]\<rparr>"
    using get_state [of ev "e_conn (heap s ! a)" "e_path (heap s ! a)" None s] by simp
  show ?thesis
    using assms g s' by (simp add: LazyTrello_getattr_data_def split: sum.splits)
qed

lemma getattr_calls:
  "e_data (heap s ! a) = None \<Longrightarrow>
   calls (snd (LazyTrello_getattr_data ev a s)) =
     calls s @ [(request_url (e_conn (heap s ! a)) (e_path (heap s ! a)) None, ''GET'')]"
  by (simp add: getattr_unhydrated split: sum.splits)

lemma getattr_evolves: "evolves s (snd (LazyTrello_getattr_data ev a s))"
proof (cases "e_data (heap s ! a)")
  case (Some d)
  then show ?thesis by (simp add: getattr_hydrated evolves_refl)
next
  case None
  have upd: "same_entity (heap s ! b) ((heap s)[a := (heap s ! a)\<lparr>e_data := Some j\<rparr>] ! b)"
    if "b < length (heap s)" for b j
  proof (cases "b = a")
    case True
    then show ?thesis using that None by (simp add: same_entity_def)
  next
    case False
    then show ?thesis by (simp add: same_entity_refl)
  qed
  show ?thesis
    using None upd by (auto simp: getattr_unhydrated evolves_def same_entity_refl split: sum.splits)
qed

lemma descr_get_fail:
  "is_field d \<Longrightarrow> LazyTrello_getattr_data ev a s = (Inl e, s') \<Longrightarrow> descr_get ev n d a s = (Inl e, s')"
  by (cases d)
     (simp_all add: returning_def Field_get_def DateField_get_def IntField_get_def BoolField_get_def
        ObjectField_get_def ListField_get_def)

lemma snd_returning: "snd (returning f r) = snd r"
  by (auto simp: returning_def split: prod.splits sum.splits)

lemma descr_get_allocs:
  assumes "is_field d" and g: "LazyTrello_getattr_data ev a s = (r, s')"
  shows "allocs s' (snd (descr_get ev n d a s))"
proof (cases r)
  case (Inl e)
  then show ?thesis
    using assms descr_get_fail [of d ev a s e s' n] by (simp add: allocs_refl)
next
  case (Inr j)
  show ?thesis
  proof (cases d)
    case (ObjectField k c)
    show ?thesis
    proof (cases "getitem j k")
      case (Inl e)
      then show ?thesis
        using g Inr ObjectField by (simp add: snd_returning ObjectField_get_def allocs_refl)
    next
      case (Inr i)
      then show ?thesis
        using g \<open>r = Inr j\<close> ObjectField init_allocs [of s' c "e_conn (heap s ! a)" i JNull]
        by (simp add: snd_returning ObjectField_get_def related_instance_def)
    qed
  next
    case (ListField k c)
    show ?thesis
    proof (cases "getitem j k")
      case (Inl e)
      then show ?thesis
        using g Inr ListField by (simp add: snd_returning ListField_get_def allocs_refl)
    next
      case i: (Inr ids)
      show ?thesis
      proof (cases "py_iter ids")
        case (Inl e)
        then show ?thesis
          using g Inr i ListField by (simp add: snd_returning ListField_get_def allocs_refl)
      next
        case it: (Inr its)
        then show ?thesis
          using g Inr i ListField related_instances_allocs [of s' c "e_conn (heap s' ! a)" its]
          by (simp add: snd_returning ListField_get_def)
      qed
    qed
  next
    case (SubList c)
    then show ?thesis using assms by simp
  qed (use g Inr in \<open>auto simp: snd_returning Field_get_def DateField_get_def IntField_get_def
        BoolField_get_def allocs_refl split: sum.splits\<close>)
qed

lemma descr_get_evolves_field:
  assumes "is_field d"
  shows "evolves s (snd (descr_get ev n d a s))"
proof -
  obtain r s' where g: "LazyTrello_getattr_data ev a s = (r, s')"
    by (cases "LazyTrello_getattr_data ev a s")
  have "evolves s s'"
    using getattr_evolves [of s ev a] g by simp
  moreover have "evolves s' (snd (descr_get ev n d a s))"
    using descr_get_allocs [OF assms g] by (rule allocs_evolves)
  ultimately show ?thesis by (rule evolves_trans)
qed

subsection \<open>Sub-collections\<close>

lemma SubList_get_cached:
  "sub_lists s dsc (list_id s a) = Some l \<Longrightarrow> SubList_get ev dsc c a s = (Inr l, s)"
  by (simp add: SubList_get_def)


lemma list_id_calls [simp]: "list_id (s\<lparr>calls := cs\<rparr>) a = list_id s a"
  by (simp add: list_id_def)

lemma SubList_get_miss:
  assumes miss: "sub_lists s dsc (list_id s a) = None"
  shows "\<exists>s2. allocs (s\<lparr>calls := calls s @
                 [(request_url (e_conn (heap s ! a))
                     (prefix (e_cls (heap s ! a)) @ e_id (heap s ! a) @ prefix c) None, ''GET'')]\<rparr>) s2
           \<and> ((\<exists>e. SubList_get ev dsc c a s = (Inl e, s2))
              \<or> (\<exists>l. SubList_get ev dsc c a s =
                     (Inr l, s2\<lparr>sub_lists := (sub_lists s)(dsc := (sub_lists s dsc)(list_id s2 a \<mapsto> l))\<rparr>)))"
proof -
  let ?conn = "e_conn (heap s ! a)"
  let ?path = "prefix (e_cls (heap s ! a)) @ e_id (heap s ! a) @ prefix c"
  let ?sc = "s\<lparr>calls := calls s @ [(request_url ?conn ?path None, ''GET'')]\<rparr>"
  obtain r s' where g: "get ev ?conn ?path None s = (r, s')"
    by (cases "get ev ?conn ?path None s")
  then have s': "s' = ?sc"
    using get_state [of ev ?conn ?path None s] by simp
  show ?thesis
  proof (cases r)
    case (Inl e)
    then have "SubList_get ev dsc c a s = (Inl e, ?sc)"
      using miss g s' by (simp add: SubList_get_def)
    then show ?thesis using allocs_refl by blast
  next
    case body: (Inr body)
    show ?thesis
    proof (cases "json_loads ev body")
      case (Inl e)
      then have "SubList_get ev dsc c a s = (Inl e, ?sc)"
        using miss g s' body by (simp add: SubList_get_def)
      then show ?thesis using allocs_refl by blast
    next
      case data: (Inr data)
      show ?thesis
      proof (cases "py_iter data")
        case (Inl e)
        then have "SubList_get ev dsc c a s = (Inl e, ?sc)"
          using miss g s' body data by (simp add: SubList_get_def)
        then show ?thesis using allocs_refl by blast
      next
        case ds: (Inr ds)
        obtain r2 s2 where si: "sublist_instances c ?conn ds ?sc = (r2, s2)"
          by (cases "sublist_instances c ?conn ds ?sc")
        then have al: "allocs ?sc s2"
          using sublist_instances_allocs [of ?sc c ?conn ds] by simp
        show ?thesis
        proof (cases r2)
          case (Inl e)
          then have "SubList_get ev dsc c a s = (Inl e, s2)"
            using miss g s' body data ds si by (simp add: SubList_get_def)
          then show ?thesis using al by blast
        next
          case (Inr l)
          have sl: "sub_lists s2 = sub_lists s"
            using allocs_sub_lists [OF al] by simp
          have "SubList_get ev dsc c a s =
                  (Inr l, s2\<lparr>sub_lists := (sub_lists s)(dsc := (sub_lists s dsc)(list_id s2 a \<mapsto> l))\<rparr>)"
            using miss g s' body data ds si Inr sl by (simp add: SubList_get_def)
          then show ?thesis using al by blast
        qed
      qed
    qed
  qed
qed


lemma evolves_sub_lists_update: "evolves s s' \<Longrightarrow> evolves s (s'\<lparr>sub_lists := m\<rparr>)"
  by (simp add: evolves_def)

lemma SubList_get_evolves: "evolves s (snd (SubList_get ev dsc c a s))"
proof (cases "sub_lists s dsc (list_id s a)")
  case (Some l)
  then show ?thesis by (simp add: SubList_get_cached evolves_refl)
next
  case None
  obtain s2 where al: "allocs (s\<lparr>calls := calls s @
                 [(request_url (e_conn (heap s ! a))
                     (prefix (e_cls (heap s ! a)) @ e_id (heap s ! a) @ prefix c) None, ''GET'')]\<rparr>) s2"
    and r: "(\<exists>e. SubList_get ev dsc c a s = (Inl e, s2))
              \<or> (\<exists>l. SubList_get ev dsc c a s =
                     (Inr l, s2\<lparr>sub_lists := (sub_lists s)(dsc := (sub_lists s dsc)(list_id s2 a \<mapsto> l))\<rparr>))"
    using SubList_get_miss [OF None, of c ev] by blast
  have "evolves s s2"
    using evolves_trans [OF evolves_calls_update allocs_evolves [OF al]] .
  then show ?thesis
    using r by (auto simp: evolves_sub_lists_update)
qed

subsection \<open>Every operation keeps what an instance is\<close>

lemma set_label_snd:
  "snd (set_label ev a color s) =
     (if lower color \<in> set valid_label_colors
      then snd (request ev (e_conn (heap s ! a)) ''POST''
                  (prefix (e_cls (heap s ! a)) @ e_id (heap s ! a) @ ''/labels'')
                  (Some [(''value'', lower color)]) None None s)
      else s)"
  by (simp add: set_label_def post_def Let_def split: prod.splits sum.splits)

lemma clear_label_snd:
  "snd (clear_label ev a color s) =
     (if lower color \<in> set valid_label_colors
      then snd (request ev (e_conn (heap s ! a)) ''DELETE''
                  (prefix (e_cls (heap s ! a)) @ e_id (heap s ! a) @ ''/labels/'' @ lower color)
                  None None None s)
      else s)"
  by (simp add: clear_label_def delete_def Let_def split: prod.splits sum.splits)

lemma exec_evolves: "evolves s (exec ev x s)"
proof (cases x)
  case (New c conn obj_id data)
  then show ?thesis by (simp add: allocs_evolves init_allocs)
next
  case (Read b n d)
  show ?thesis
  proof (cases "is_field d")
    case True
    then show ?thesis using Read by (simp add: descr_get_evolves_field)
  next
    case False
    then obtain c where "d = SubList c" by (cases d) auto
    then show ?thesis
      using Read SubList_get_evolves [of s ev _ c b] by (simp add: snd_returning)
  qed
next
  case (Request conn m p ps b f)
  then show ?thesis by (simp add: request_state evolves_calls_update)
next
  case (SetLabel b color)
  then show ?thesis
    by (simp add: set_label_snd request_state evolves_refl evolves_calls_update)
next
  case (ClearLabel b color)
  then show ?thesis
    by (simp add: clear_label_snd request_state evolves_refl evolves_calls_update)
qed


lemma run_evolves: "evolves s (run ev ops s)"
proof (induction ops arbitrary: s)
  case Nil
  show ?case by (simp add: evolves_refl)
next
  case (Cons x xs)
  have "evolves s (exec ev x s)" by (rule exec_evolves)
  moreover have "evolves (exec ev x s) (run ev xs (exec ev x s))" by (rule Cons.IH)
  ultimately show ?case using evolves_trans by simp
qed

lemma field_read_hydrated:
  assumes "is_field d" and "e_data (heap s ! a) = Some j"
  shows "calls (snd (descr_get ev n d a s)) = calls s"
  using descr_get_allocs [OF assms(1) getattr_hydrated [OF assms(2)], of ev n] by (simp add: allocs_calls)

lemma field_read_unhydrated:
  assumes "is_field d" and "e_data (heap s ! a) = None"
  shows "calls (snd (descr_get ev n d a s)) =
           calls s @ [(request_url (e_conn (heap s ! a)) (e_path (heap s ! a)) None, ''GET'')]"
proof -
  obtain r s' where g: "LazyTrello_getattr_data ev a s = (r, s')"
    by (cases "LazyTrello_getattr_data ev a s")
  have "calls (snd (descr_get ev n d a s)) = calls s'"
    using descr_get_allocs [OF assms(1) g] by (rule allocs_calls)
  then show ?thesis
    using getattr_calls [OF assms(2), of ev] g by simp
qed





lemmas field_defs = returning_def Field_get_def DateField_get_def IntField_get_def BoolField_get_def
  ObjectField_get_def ListField_get_def related_instance_def LazyTrello_init_def
  LazyTrello_getattr_data_def get_def request_def


text \<open>
  C3.  The instance has no \<open>_data\<close> and the hydration fails: the transport raises, or
  answers with a status other than 200, or \<open>json.loads\<close> rejects the body.  Then the
  read raises that very error, nothing but the log of calls changes (the instance still
  has no \<open>_data\<close>), and the next read of a field of the same instance calls the
  transport again, with the same \<open>GET\<close>.
\<close>

theorem failed_hydration_is_retried:
  assumes a: "a < length (heap s)" and un: "e_data (heap s ! a) = None"
    and d: "is_field d" and d': "is_field d'"
    and fail: "case urlfetch_fetch ev (calls s)
                      (request_url (e_conn (heap s ! a)) (e_path (heap s ! a)) None) ''GET'' of
                 Inl e \<Rightarrow> True
               | Inr r \<Rightarrow> status_code r \<noteq> 200 \<or> isl (json_loads ev (content r))"
  shows
    "\<exists>e. descr_get ev n d a s =
            (Inl e, s\<lparr>calls := calls s @
               [(request_url (e_conn (heap s ! a)) (e_path (heap s ! a)) None, ''GET'')]\<rparr>)
          \<and> (fst (get ev (e_conn (heap s ! a)) (e_path (heap s ! a)) None s) = Inl e
             \<or> (\<exists>body. fst (get ev (e_conn (heap s ! a)) (e_path (heap s ! a)) None s) = Inr body
                       \<and> json_loads ev body = Inl e))
          \<and> e_data (heap (snd (descr_get ev n d a s)) ! a) = None
          \<and> calls (snd (descr_get ev n' d' a (snd (descr_get ev n d a s)))) =
              calls s @ [(request_url (e_conn (heap s ! a)) (e_path (heap s ! a)) None, ''GET''),
                         (request_url (e_conn (heap s ! a)) (e_path (heap s ! a)) None, ''GET'')]"
proof -
  let ?url = "request_url (e_conn (heap s ! a)) (e_path (heap s ! a)) None"
  let ?s1 = "s\<lparr>calls := calls s @ [(?url, ''GET'')]\<rparr>"
  let ?g = "fst (get ev (e_conn (heap s ! a)) (e_path (heap s ! a)) None s)"
  have "\<exists>e. LazyTrello_getattr_data ev a s = (Inl e, ?s1)
            \<and> (?g = Inl e \<or> (\<exists>body. ?g = Inr body \<and> json_loads ev body = Inl e))"
    using fail un
    by (auto simp: getattr_unhydrated get_def request_result isl_def split: sum.splits if_splits)
  then obtain e where g: "LazyTrello_getattr_data ev a s = (Inl e, ?s1)"
    and why: "?g = Inl e \<or> (\<exists>body. ?g = Inr body \<and> json_loads ev body = Inl e)"
    by blast
  have r1: "descr_get ev n d a s = (Inl e, ?s1)"
    using descr_get_fail [OF d g] .
  have un1: "e_data (heap ?s1 ! a) = None"
    using un by simp
  have "calls (snd (descr_get ev n' d' a ?s1)) = calls ?s1 @ [(?url, ''GET'')]"
    using field_read_unhydrated [OF d' un1, of ev n'] by simp
  then show ?thesis
    using r1 why un by auto
qed

theorem failed_hydration_is_retried_witness:
  "0 < length (heap s_card) \<and> e_data (heap s_card ! 0) = None
   \<and> descr_get ev_flaky ''name'' (Field (Some ''name'')) 0 s_card =
       (Inl (Exception (''Error: (404) '' @ [CHR 0x22] @ ''not found'' @ [CHR 0x22])),
        s_card\<lparr>calls := [(''https://api.trello.com/1/cards/abc123?key=K&token=T'', ''GET'')]\<rparr>)
   \<and> descr_get ev_flaky ''name'' (Field (Some ''name'')) 0
        (snd (descr_get ev_flaky ''name'' (Field (Some ''name'')) 0 s_card)) =
       (Inr (PJson (JStr ''Demo'')),
        \<lparr>heap = [\<lparr>e_cls = Card, e_id = ''abc123'', e_conn = conn0, e_path = ''/cards/abc123'',
                   e_data = Some (JObj [(''name'', JStr ''Demo'')])\<rparr>],
         sub_lists = (\<lambda>d k. None),
         calls = [(''https://api.trello.com/1/cards/abc123?key=K&token=T'', ''GET''),
                  (''https://api.trello.com/1/cards/abc123?key=K&token=T'', ''GET'')]\<rparr>)"
  using failed_hydration_is_retried [where a = 0 and s = s_card and d = "Field (Some ''name'')"
      and d' = "Field (Some ''name'')" and ev = ev_flaky and n = "''name''" and n' = "''name''"]
  by (simp add: s_card_eq ev_flaky_def conn0_def field_defs url_simps show_int_def show_nat.simps)

section \<open>Instances built with data\<close>

lemma hydrated_field_reads:
  assumes "e_data (heap s ! a) = Some j"
  shows "Field_get ev k a s = (getitem j k, s)"
    and "DateField_get ev k a s = (case getitem j k of Inl e \<Rightarrow> Inl e | Inr raw \<Rightarrow> parse_datetime ev raw, s)"
    and "IntField_get ev k a s = (case getitem j k of Inl e \<Rightarrow> Inl e | Inr raw \<Rightarrow> builtin_int ev raw, s)"
    and "BoolField_get ev k a s = (case getitem j k of Inl e \<Rightarrow> Inl e | Inr raw \<Rightarrow> Inr (truthy raw), s)"
  using assms
  by (simp_all add: Field_get_def DateField_get_def IntField_get_def BoolField_get_def
      getattr_hydrated split: sum.splits)

text \<open>
  C2, as the code has it.  An instance built with a non-empty data mapping keeps it as
  \<open>_data\<close>.  Reading a field of such an instance decodes the value stored under the
  field's key in that mapping (as it is, through \<open>isodate.parse_datetime\<close>, through
  \<open>int\<close> or through \<open>bool\<close>) and leaves the state as it was; after any sequence of
  operations the mapping is still there and a read of any field adds no call to the log.
\<close>

theorem supplied_data_skips_fetch:
  assumes ne: "kvs \<noteq> []" and a: "a < length (heap s)"
    and h: "heap s ! a = hydrated_entity c conn i (JObj kvs)" and d: "is_field d"
  shows
    "LazyTrello_init c conn (JStr i) (JObj kvs) t =
       (Inr (length (heap t)), t\<lparr>heap := heap t @ [hydrated_entity c conn i (JObj kvs)]\<rparr>)
     \<and> Field_get ev k a s = (getitem (JObj kvs) k, s)
     \<and> DateField_get ev k a s =
         (case getitem (JObj kvs) k of Inl e \<Rightarrow> Inl e | Inr raw \<Rightarrow> parse_datetime ev raw, s)
     \<and> IntField_get ev k a s =
         (case getitem (JObj kvs) k of Inl e \<Rightarrow> Inl e | Inr raw \<Rightarrow> builtin_int ev raw, s)
     \<and> BoolField_get ev k a s =
         (case getitem (JObj kvs) k of Inl e \<Rightarrow> Inl e | Inr raw \<Rightarrow> Inr (truthy raw), s)
     \<and> e_data (heap (run ev ops s) ! a) = Some (JObj kvs)
     \<and> calls (snd (descr_get ev n d a (run ev ops s))) = calls (run ev ops s)"
proof -
  have hy: "e_data (heap s ! a) = Some (JObj kvs)"
    using h by (simp add: hydrated_entity_def)
  have one: "LazyTrello_init c conn (JStr i) (JObj kvs) t =
       (Inr (length (heap t)), t\<lparr>heap := heap t @ [hydrated_entity c conn i (JObj kvs)]\<rparr>)"
    using ne by (simp add: init_str hydrated_entity_def)
  have later: "e_data (heap (run ev ops s) ! a) = Some (JObj kvs)"
    using evolves_hydrated [OF run_evolves a hy] by simp
  have quiet: "calls (snd (descr_get ev n d a (run ev ops s))) = calls (run ev ops s)"
    using field_read_hydrated [OF d later] .
  show ?thesis
    using one later quiet hydrated_field_reads [OF hy, of ev k] by simp
qed

theorem supplied_data_skips_fetch_witness:
  "truthy card_json \<and> 0 < length (heap s_hcard)
   \<and> LazyTrello_init Card conn0 (JStr ''abc123'') card_json s0 = (Inr 0, s_hcard)
   \<and> heap s_hcard ! 0 = hydrated_entity Card conn0 ''abc123'' card_json
   \<and> Field_get (ev_always 500 ''down'' JNull) (Some ''name'') 0 s_hcard = (Inr (JStr ''Demo''), s_hcard)
   \<and> calls (snd (descr_get (ev_always 500 ''down'' JNull) ''board'' (ObjectField (Some ''idBoard'') Board) 0 s_hcard)) = []"
  using supplied_data_skips_fetch [where kvs = "[(''id'', JStr ''abc123''), (''name'', JStr ''Demo''), (''idBoard'', JStr ''b1''),
                     (''idMembers'', JArr [JStr ''m1'', JStr ''m2''])]" and a = 0 and s = s_hcard
      and c = Card and conn = conn0 and i = "''abc123''" and d = "ObjectField (Some ''idBoard'') Board"
      and t = s0 and ev = "ev_always 500 ''down'' JNull" and k = "Some ''name''" and ops = "[]"
      and n = "''board''"]
  by (simp add: s_hcard_def card_json_def hydrated_entity_def LazyTrello_init_def s0_def)

text \<open>
  C2 as stated fails for the empty mapping: \<open>Card(conn, 'abc123', {})\<close> is the same
  instance as \<open>Card(conn, 'abc123')\<close>, without \<open>_data\<close>, and reading its \<open>name\<close>
  calls the transport.
\<close>

theorem empty_data_counterexample:
  "LazyTrello_init Card conn0 (JStr ''abc123'') (JObj []) s0 = (Inr 0, s_card)
   \<and> e_data (heap s_card ! 0) = None
   \<and> calls (snd (Field_get ev_card (Some ''name'') 0 s_card))
       = [(''https://api.trello.com/1/cards/abc123?key=K&token=T'', ''GET'')]"
  by (simp add: s_card_eq s0_def ev_card_def ev_always_def conn0_def field_defs url_simps)


section \<open>Related objects\<close>

lemma getattr_other:
  assumes "b \<noteq> a"
  shows "heap (snd (LazyTrello_getattr_data ev a s)) ! b = heap s ! b"
proof (cases "e_data (heap s ! a)")
  case (Some j)
  then show ?thesis by (simp add: getattr_hydrated)
next
  case None
  then show ?thesis
    using assms by (simp add: getattr_unhydrated split: sum.splits)
qed

lemma object_field_hydrated:
  assumes "e_data (heap s ! a) = Some j" and "getitem j k = Inr (JStr i)"
  shows "ObjectField_get ev k c a s =
           (Inr (length (heap s)), s\<lparr>heap := heap s @ [fresh_entity c (e_conn (heap s ! a)) i]\<rparr>)"
  using assms by (simp add: ObjectField_get_def getattr_hydrated related_instance_str)

text \<open>
  C6.  The owner has its data and the field's key holds the string \<open>i\<close>.  Two reads of
  the \<open>ObjectField\<close> return two different instances (the next two free identities), both
  of the target class, with id \<open>i\<close>, the owner's connection and no \<open>_data\<close>; hydrating
  the first leaves the second without \<open>_data\<close>.
\<close>

theorem related_objects_are_not_interned:
  assumes a: "a < length (heap s)" and h: "e_data (heap s ! a) = Some j"
    and k: "getitem j k = Inr (JStr i)"
  shows
    "ObjectField_get ev k c a s =
       (Inr (length (heap s)), s\<lparr>heap := heap s @ [fresh_entity c (e_conn (heap s ! a)) i]\<rparr>)
     \<and> ObjectField_get ev k c a (s\<lparr>heap := heap s @ [fresh_entity c (e_conn (heap s ! a)) i]\<rparr>) =
       (Inr (Suc (length (heap s))),
        s\<lparr>heap := heap s @ [fresh_entity c (e_conn (heap s ! a)) i, fresh_entity c (e_conn (heap s ! a)) i]\<rparr>)
     \<and> length (heap s) \<noteq> Suc (length (heap s))
     \<and> e_cls (fresh_entity c (e_conn (heap s ! a)) i) = c
     \<and> e_id (fresh_entity c (e_conn (heap s ! a)) i) = i
     \<and> e_data (fresh_entity c (e_conn (heap s ! a)) i) = None
     \<and> e_data (heap (snd (LazyTrello_getattr_data ev (length (heap s))
           (s\<lparr>heap := heap s @ [fresh_entity c (e_conn (heap s ! a)) i,
                                  fresh_entity c (e_conn (heap s ! a)) i]\<rparr>))) ! Suc (length (heap s))) = None"
proof -
  let ?f = "fresh_entity c (e_conn (heap s ! a)) i"
  let ?s1 = "s\<lparr>heap := heap s @ [?f]\<rparr>"
  let ?s2 = "s\<lparr>heap := heap s @ [?f, ?f]\<rparr>"
  have one: "ObjectField_get ev k c a s = (Inr (length (heap s)), ?s1)"
    using object_field_hydrated [OF h k] .
  have h1: "e_data (heap ?s1 ! a) = Some j" and c1: "e_conn (heap ?s1 ! a) = e_conn (heap s ! a)"
    using a h by (simp_all add: nth_append)
  have two: "ObjectField_get ev k c a ?s1 = (Inr (Suc (length (heap s))), ?s2)"
    using object_field_hydrated [OF h1 k, of ev c] c1 by simp
  have "heap (snd (LazyTrello_getattr_data ev (length (heap s)) ?s2)) ! Suc (length (heap s))
          = heap ?s2 ! Suc (length (heap s))"
    by (rule getattr_other) simp
  then have three: "e_data (heap (snd (LazyTrello_getattr_data ev (length (heap s)) ?s2)) ! Suc (length (heap s))) = None"
    by (simp add: nth_append fresh_entity_def)
  show ?thesis
    using one two three by (simp add: fresh_entity_def)
qed

theorem related_objects_are_not_interned_witness:
  "0 < length (heap s_hcard) \<and> e_data (heap s_hcard ! 0) = Some card_json
   \<and> getitem card_json (Some ''idBoard'') = Inr (JStr ''b1'')
   \<and> fst (ObjectField_get ev_card (Some ''idBoard'') Board 0 s_hcard) = Inr 1
   \<and> fst (ObjectField_get ev_card (Some ''idBoard'') Board 0
             (snd (ObjectField_get ev_card (Some ''idBoard'') Board 0 s_hcard))) = Inr 2
   \<and> heap (snd (ObjectField_get ev_card (Some ''idBoard'') Board 0
             (snd (ObjectField_get ev_card (Some ''idBoard'') Board 0 s_hcard))))
       = [hydrated_entity Card conn0 ''abc123'' card_json,
          fresh_entity Board conn0 ''b1'', fresh_entity Board conn0 ''b1'']"
  using related_objects_are_not_interned [where a = 0 and s = s_hcard and j = card_json
      and k = "Some ''idBoard''" and i = "''b1''" and ev = ev_card and c = Board]
  by (simp add: s_hcard_def card_json_def hydrated_entity_def fresh_entity_def LazyTrello_init_def s0_def)

lemma related_instances_strs:
  "related_instances c conn (map JStr ids) s =
     (Inr [length (heap s) ..< length (heap s) + length ids],
      s\<lparr>heap := heap s @ map (fresh_entity c conn) ids\<rparr>)"
proof (induction ids arbitrary: s)
  case Nil
  show ?case by simp
next
  case (Cons i ids)
  have e: "[length (heap s) ..< length (heap s) + length (i # ids)] =
             length (heap s) # [Suc (length (heap s)) ..< Suc (length (heap s)) + length ids]"
    by (subst upt_conv_Cons) simp_all
  show ?case
    unfolding e by (simp add: related_instance_str Cons.IH)
qed

text \<open>
  C8.  The owner has its data and the field's key holds the list of strings \<open>ids\<close>.
  Reading the \<open>ListField\<close> returns as many new instances as there are ids; the \<open>m\<close>-th
  one is of the target class, has the \<open>m\<close>-th id, the owner's connection and no \<open>_data\<close>.
\<close>

theorem list_field_keeps_order:
  assumes a: "a < length (heap s)" and h: "e_data (heap s ! a) = Some j"
    and k: "getitem j k = Inr (JArr (map JStr ids))"
  shows
    "ListField_get ev k c a s =
       (Inr [length (heap s) ..< length (heap s) + length ids],
        s\<lparr>heap := heap s @ map (fresh_entity c (e_conn (heap s ! a))) ids\<rparr>)
     \<and> length [length (heap s) ..< length (heap s) + length ids] = length ids
     \<and> (\<forall>m < length ids.
          (heap s @ map (fresh_entity c (e_conn (heap s ! a))) ids)
             ! ([length (heap s) ..< length (heap s) + length ids] ! m)
            = \<lparr>e_cls = c, e_id = ids ! m, e_conn = e_conn (heap s ! a), e_path = prefix c @ ids ! m,
                e_data = None\<rparr>)"
proof -
  have "ListField_get ev k c a s =
       (Inr [length (heap s) ..< length (heap s) + length ids],
        s\<lparr>heap := heap s @ map (fresh_entity c (e_conn (heap s ! a))) ids\<rparr>)"
    using h k by (simp add: ListField_get_def getattr_hydrated related_instances_strs)
  then show ?thesis
    by (simp add: nth_append fresh_entity_def)
qed

theorem list_field_keeps_order_witness:
  "0 < length (heap s_hcard) \<and> e_data (heap s_hcard ! 0) = Some card_json
   \<and> getitem card_json (Some ''idMembers'') = Inr (JArr (map JStr [''m1'', ''m2'']))
   \<and> ListField_get ev_card (Some ''idMembers'') Member 0 s_hcard =
       (Inr [1, 2],
        s_hcard\<lparr>heap := [hydrated_entity Card conn0 ''abc123'' card_json,
                          fresh_entity Member conn0 ''m1'', fresh_entity Member conn0 ''m2'']\<rparr>)"
  using list_field_keeps_order [where a = 0 and s = s_hcard and j = card_json
      and k = "Some ''idMembers''" and ids = "[''m1'', ''m2'']" and ev = ev_card and c = Member]
  by (simp add: s_hcard_def card_json_def hydrated_entity_def fresh_entity_def LazyTrello_init_def
      s0_def upt_conv_Cons)


section \<open>The cache of a sub-collection\<close>

lemma list_id_sub_lists [simp]: "list_id (s\<lparr>sub_lists := m\<rparr>) a = list_id s a"
  by (simp add: list_id_def)





end
